theory Spec2Isabelle
  imports Main
begin

section \<open>Shared data: the signed-in user and the filter object\<close>

text \<open>
  Both pages read the signed-in user from a hook; it may be absent. The DSA sheet tests
  \<^verbatim>\<open>!user?.id\<close>, which is true when the user is absent and also when the id is the
  empty string, so \<open>user_id_of\<close> returns the id only when JavaScript finds it truthy.
\<close>

record user =
  user_id :: string

definition user_id_of :: "user option \<Rightarrow> string option" where
  "user_id_of u =
     (case u of
        None \<Rightarrow> None
      | Some usr \<Rightarrow> (if user_id usr = [] then None else Some (user_id usr)))"

text \<open>
  The filter object of \<^verbatim>\<open>DSAFiltersProps\<close>: three arrays of strings. Arrays keep their
  order and may hold duplicates, so they are lists.
\<close>

record filters =
  difficulty :: "string list"
  category :: "string list"
  companies :: "string list"

section \<open>DSASheet: the favorites toggle\<close>

text \<open>
  \<^verbatim>\<open>handleToggleFavorite\<close> talks to the persistence service, updates the component's
  \<^verbatim>\<open>favorites\<close> state and shows toasts. It reads the favorites twice, and not from the
  same place. The branch is chosen by \<^verbatim>\<open>favorites.includes(itemId)\<close>, where
  \<^verbatim>\<open>favorites\<close> is the array of the render in which the handler was created. The update
  is \<^verbatim>\<open>setFavorites(prev => ...)\<close>, where \<^verbatim>\<open>prev\<close> is the state at the time the awaited
  call has resolved. The two differ when another toggle has updated the state in between,
  so the model takes both: \<open>favorites\<close> for the render's array and \<open>prev\<close> for the state
  the updater receives. It returns the effects in the order the handler performs them,
  together with the favorites state after the handler has run. The service is a parameter:
  it tells, for each call, whether the awaited promise resolves (\<open>True\<close>) or rejects
  (\<open>False\<close>).
\<close>

datatype service_call =
    RemoveFromFavorites string string
  | AddToFavorites string string

datatype sheet_effect =
    Call service_call
  | SetFavorites "string list"
  | ToastError string
  | ToastSuccess string

definition handleToggleFavorite ::
  "user option \<Rightarrow> (service_call \<Rightarrow> bool) \<Rightarrow> string \<Rightarrow> string list \<Rightarrow> string list
     \<Rightarrow> sheet_effect list \<times> string list" where
  "handleToggleFavorite usr service itemId favorites prev =
     (case user_id_of usr of
        None \<Rightarrow> ([ToastError ''Please sign in to add favorites''], prev)
      | Some uid \<Rightarrow>
          (if itemId \<in> set favorites then
             (if service (RemoveFromFavorites uid itemId) then
                ([Call (RemoveFromFavorites uid itemId),
                  SetFavorites (filter (\<lambda>i. i \<noteq> itemId) prev),
                  ToastSuccess ''Removed from favorites''],
                 filter (\<lambda>i. i \<noteq> itemId) prev)
              else
                ([Call (RemoveFromFavorites uid itemId),
                  ToastError ''Error updating favorites''],
                 prev))
           else
             (if service (AddToFavorites uid itemId) then
                ([Call (AddToFavorites uid itemId),
                  SetFavorites (prev @ [itemId]),
                  ToastSuccess ''Added to favorites''],
                 prev @ [itemId])
              else
                ([Call (AddToFavorites uid itemId),
                  ToastError ''Error updating favorites''],
                 prev))))"



text \<open>Two services for concrete runs: one whose calls all resolve, one whose calls all reject.\<close>

definition service_ok :: "service_call \<Rightarrow> bool" where
  "service_ok c = True"

definition service_down :: "service_call \<Rightarrow> bool" where
  "service_down c = False"

text \<open>Which effects are persistence calls, and which are local updates of the favorites.\<close>

fun is_call :: "sheet_effect \<Rightarrow> bool" where
  "is_call (Call _) = True"
| "is_call _ = False"

fun is_local_update :: "sheet_effect \<Rightarrow> bool" where
  "is_local_update (SetFavorites _) = True"
| "is_local_update _ = False"

text \<open>
  The optimistic order of the specification, as a test on a trace: a local update occurs,
  and no persistence call occurs before the first one.
\<close>

fun update_before_call :: "sheet_effect list \<Rightarrow> bool" where
  "update_before_call [] = False"
| "update_before_call (e # es) =
     (if is_local_update e then True
      else if is_call e then False
      else update_before_call es)"

section \<open>DSASheet: the debounced save of the filters\<close>









section \<open>DSAFilters: the checkbox handlers\<close>

text \<open>
  Each handler builds the new array (append when checked, remove every occurrence when
  unchecked) and passes \<^verbatim>\<open>{ ...filters, field: newArray }\<close> to \<^verbatim>\<open>onFiltersChange\<close>.
  The model returns the object that is passed.
\<close>

definition handleDifficultyChange :: "filters \<Rightarrow> string \<Rightarrow> bool \<Rightarrow> filters" where
  "handleDifficultyChange fs d checked =
     (let newDifficulties =
            (if checked then difficulty fs @ [d] else filter (\<lambda>x. x \<noteq> d) (difficulty fs))
      in fs\<lparr>difficulty := newDifficulties\<rparr>)"

definition handleCategoryChange :: "filters \<Rightarrow> string \<Rightarrow> bool \<Rightarrow> filters" where
  "handleCategoryChange fs c checked =
     (let newCategories =
            (if checked then category fs @ [c] else filter (\<lambda>x. x \<noteq> c) (category fs))
      in fs\<lparr>category := newCategories\<rparr>)"

definition handleCompanyChange :: "filters \<Rightarrow> string \<Rightarrow> bool \<Rightarrow> filters" where
  "handleCompanyChange fs c checked =
     (let newCompanies =
            (if checked then companies fs @ [c] else filter (\<lambda>x. x \<noteq> c) (companies fs))
      in fs\<lparr>companies := newCompanies\<rparr>)"

section \<open>ResumeUpload: the drop handler\<close>

text \<open>
  A dropped file, as far as \<^verbatim>\<open>onDrop\<close> reads it: its MIME type and its size in bytes.
\<close>

record upload_file =
  file_name :: string
  file_type :: string
  file_size :: nat

text \<open>
  What the awaited \<^verbatim>\<open>uploadResume\<close> may throw: an \<^verbatim>\<open>Error\<close> with its message, or any
  other value.
\<close>

datatype thrown = Error string | Thrown

datatype variant = Default | Destructive

text \<open>
  The effects of the handler, in order. \<open>Toast title description variant\<close> is the
  user-visible notification. The progress interval only moves the progress bar between
  its start and its end; the trace records that it is started and cleared, not its ticks.
\<close>

datatype upload_effect =
    Toast string string variant
  | SetCurrentFile "upload_file option"
  | SetIsProcessing bool
  | SetUploadProgress nat
  | SetInterval nat
  | ClearInterval
  | UploadResume upload_file
  | ConsoleError string
  | SetTimeout nat

definition validTypes :: "string list" where
  "validTypes =
     [''application/pdf'', ''application/msword'',
      ''application/vnd.openxmlformats-officedocument.wordprocessingml.document'']"

text \<open>
  \<^verbatim>\<open>acceptedFiles[0]\<close> of an empty array is undefined, and the handler returns at once
  then, as it does without a user. The external \<^verbatim>\<open>uploadResume\<close> is a parameter that
  tells what the call throws, if anything.
\<close>

definition onDrop ::
  "user option \<Rightarrow> (upload_file \<Rightarrow> thrown option) \<Rightarrow> upload_file list \<Rightarrow> upload_effect list" where
  "onDrop usr uploadResume acceptedFiles =
     (case acceptedFiles of
        [] \<Rightarrow> []
      | file # _ \<Rightarrow>
          (case usr of
             None \<Rightarrow> []
           | Some _ \<Rightarrow>
               (if file_type file \<notin> set validTypes then
                  [Toast ''Invalid file type'' ''Please upload a PDF or Word document'' Destructive]
                else if file_size file > 5 * 1024 * 1024 then
                  [Toast ''File too large'' ''Please upload a file smaller than 5MB'' Destructive]
                else
                  [SetCurrentFile (Some file), SetIsProcessing True, SetUploadProgress 0,
                   SetInterval 300, UploadResume file] @
                  (case uploadResume file of
                     None \<Rightarrow>
                       [ClearInterval, SetUploadProgress 100,
                        Toast ''Resume processed successfully''
                          ''Profile has been automatically updated with extracted data'' Default,
                        SetTimeout 2000]
                   | Some err \<Rightarrow>
                       [ConsoleError ''Upload failed:'', SetUploadProgress 0,
                        SetCurrentFile None, SetIsProcessing False,
                        Toast ''Processing failed''
                          (case err of Error msg \<Rightarrow> msg | Thrown \<Rightarrow> ''Please try again'')
                          Destructive]))))"

fun is_upload :: "upload_effect \<Rightarrow> bool" where
  "is_upload (UploadResume _) = True"
| "is_upload _ = False"

text \<open>Two upload services for concrete runs: one that succeeds, one that throws.\<close>

definition upload_ok :: "upload_file \<Rightarrow> thrown option" where
  "upload_ok f = None"

definition upload_fails :: "upload_file \<Rightarrow> thrown option" where
  "upload_fails f = Some (Error ''Service unavailable'')"

section \<open>The filter derivation\<close>

text \<open>
  Modelled from the spec: the catalog entries. The data files \<^verbatim>\<open>dsaProblems\<close> and
  \<^verbatim>\<open>companyProblems\<close> are not among the sources; the specification gives an entry an
  id, a title, a difficulty and a category, which are the fields the derivation reads.
\<close>

record entry =
  entry_id :: string
  title :: string
  entry_difficulty :: string
  entry_category :: string

text \<open>
  Modelled from the spec: lower-casing for the case-insensitive match, on ASCII letters.
\<close>

definition to_lower :: "char \<Rightarrow> char" where
  "to_lower c =
     (let n = (of_char c :: nat)
      in if 65 \<le> n \<and> n \<le> 90 then char_of (n + 32) else c)"

text \<open>Modelled from the spec: the substring test of the search, first at the front.\<close>

fun starts_with :: "string \<Rightarrow> string \<Rightarrow> bool" where
  "starts_with s [] = True"
| "starts_with [] (p # ps) = False"
| "starts_with (c # cs) (p # ps) = (c = p \<and> starts_with cs ps)"

text \<open>Modelled from the spec: the substring test of the search, at any position.\<close>

fun contains :: "string \<Rightarrow> string \<Rightarrow> bool" where
  "contains [] sub = (sub = [])"
| "contains (c # cs) sub = (starts_with (c # cs) sub \<or> contains cs sub)"

text \<open>
  Modelled from the spec: the predicate of the filter derivation. The hook
  \<^verbatim>\<open>useDSAFilters\<close> that computes the filtered lists is not among the sources. The
  specification keeps an entry when the difficulty set is empty or holds the entry's
  difficulty, the category set is empty or holds the entry's category, the companies set
  is empty or holds the entry's id, and, if the search is not empty, the title contains
  the search, compared case-insensitively.
\<close>

definition matches :: "filters \<Rightarrow> string \<Rightarrow> entry \<Rightarrow> bool" where
  "matches fs search e =
     ((difficulty fs = [] \<or> entry_difficulty e \<in> set (difficulty fs))
      \<and> (category fs = [] \<or> entry_category e \<in> set (category fs))
      \<and> (companies fs = [] \<or> entry_id e \<in> set (companies fs))
      \<and> (search = [] \<or> contains (map to_lower (title e)) (map to_lower search)))"

text \<open>
  Modelled from the spec: the filter derivation of the missing hook \<^verbatim>\<open>useDSAFilters\<close>,
  the entries of the catalog that satisfy the predicate, in catalog order.
\<close>

definition filter_catalog :: "filters \<Rightarrow> string \<Rightarrow> entry list \<Rightarrow> entry list" where
  "filter_catalog fs search catalog = filter (matches fs search) catalog"

section \<open>The favorites toggle: results\<close>




text \<open>
  C1, as stated: the local favorites are updated before the persistence call is issued.
  The handler awaits the service first. Adding \<open>two-sum\<close> to an empty list, with the call
  succeeding, gives a trace in which the call comes before the update.
\<close>

theorem toggle_optimistic_counterexample:
  "\<not> update_before_call
       (fst (handleToggleFavorite (Some \<lparr>user_id = ''u1''\<rparr>) service_ok ''two-sum'' [] []))"
  by (simp add: handleToggleFavorite_def user_id_of_def service_ok_def)

text \<open>
  C1, amended: for a signed-in user the first effect of the toggle is the persistence call
  (remove when the item is a favorite, add otherwise); no local update precedes it, and
  the local update follows it exactly when the call succeeds. This holds whatever state
  the updater receives.
\<close>

theorem toggle_call_then_update:
  assumes "user_id_of usr = Some uid"
  shows "\<exists>rest.
           fst (handleToggleFavorite usr service x S P) =
             Call (if x \<in> set S then RemoveFromFavorites uid x else AddToFavorites uid x) # rest
           \<and> list_ex is_local_update rest =
               service (if x \<in> set S then RemoveFromFavorites uid x else AddToFavorites uid x)
           \<and> \<not> list_ex is_call rest
           \<and> \<not> update_before_call (fst (handleToggleFavorite usr service x S P))"
  using assms by (simp add: handleToggleFavorite_def)

theorem toggle_call_then_update_witness:
  "user_id_of (Some \<lparr>user_id = ''u1''\<rparr>) = Some ''u1''
   \<and> (\<exists>rest.
          fst (handleToggleFavorite (Some \<lparr>user_id = ''u1''\<rparr>) service_ok ''two-sum''
                 [''arrays''] [''arrays'']) =
            Call (AddToFavorites ''u1'' ''two-sum'') # rest
          \<and> list_ex is_local_update rest)"
proof -
  have signed_in: "user_id_of (Some \<lparr>user_id = ''u1''\<rparr>) = Some ''u1''"
    by (simp add: user_id_of_def)
  from toggle_call_then_update [OF signed_in, of service_ok "''two-sum''" "[''arrays'']"
      "[''arrays'']"]
  obtain rest where
    "fst (handleToggleFavorite (Some \<lparr>user_id = ''u1''\<rparr>) service_ok ''two-sum''
            [''arrays''] [''arrays'']) =
       Call (AddToFavorites ''u1'' ''two-sum'') # rest"
    and "list_ex is_local_update rest = service_ok (AddToFavorites ''u1'' ''two-sum'')"
    by auto
  then show ?thesis
    using signed_in by (auto simp: service_ok_def)
qed

text \<open>
  C9. When the persistence call of the toggle fails, the favorites stay exactly as they
  were, and after the call the only effect is the error notification. The state that
  stays is the current one, \<open>P\<close>, also when it is not the array \<open>S\<close> of the render.
\<close>

theorem toggle_failure_keeps_favorites:
  assumes "user_id_of usr = Some uid"
    and "\<not> service (if x \<in> set S then RemoveFromFavorites uid x else AddToFavorites uid x)"
  shows "handleToggleFavorite usr service x S P =
           ([Call (if x \<in> set S then RemoveFromFavorites uid x else AddToFavorites uid x),
             ToastError ''Error updating favorites''], P)"
  using assms by (simp add: handleToggleFavorite_def split: if_splits)

theorem toggle_failure_keeps_favorites_witness:
  "user_id_of (Some \<lparr>user_id = ''u1''\<rparr>) = Some ''u1''
   \<and> \<not> service_down (RemoveFromFavorites ''u1'' ''two-sum'')
   \<and> handleToggleFavorite (Some \<lparr>user_id = ''u1''\<rparr>) service_down ''two-sum''
         [''arrays'', ''two-sum''] [''arrays'', ''two-sum''] =
       ([Call (RemoveFromFavorites ''u1'' ''two-sum''), ToastError ''Error updating favorites''],
        [''arrays'', ''two-sum''])"
  using toggle_failure_keeps_favorites [of "Some \<lparr>user_id = ''u1''\<rparr>" "''u1''" service_down
      "''two-sum''" "[''arrays'', ''two-sum'']" "[''arrays'', ''two-sum'']"]
  by (simp add: user_id_of_def service_down_def)

section \<open>The debounced save: results\<close>




section \<open>The checkbox handlers: results\<close>

text \<open>
  C10. Each of the three handlers passes on a filter object in which the two fields it
  does not change have the values they had before.
\<close>

theorem handlers_keep_other_fields:
  "category (handleDifficultyChange fs v checked) = category fs
   \<and> companies (handleDifficultyChange fs v checked) = companies fs
   \<and> difficulty (handleCategoryChange fs v checked) = difficulty fs
   \<and> companies (handleCategoryChange fs v checked) = companies fs
   \<and> difficulty (handleCompanyChange fs v checked) = difficulty fs
   \<and> category (handleCompanyChange fs v checked) = category fs"
  by (simp add: handleDifficultyChange_def handleCategoryChange_def handleCompanyChange_def
      Let_def)

section \<open>The drop handler: results\<close>

text \<open>
  C6. A dropped file whose MIME type is not in the allow-list, \<open>image/png\<close> in particular,
  is rejected whatever its size: the handler shows the "Invalid file type" notification
  and does nothing else.
\<close>

theorem invalid_type_rejected:
  assumes "file_type f \<notin> set validTypes \<or> file_type f = ''image/png''"
  shows "onDrop (Some u) uploadResume (f # fs) =
           [Toast ''Invalid file type'' ''Please upload a PDF or Word document'' Destructive]"
  using assms by (auto simp: onDrop_def validTypes_def)

theorem invalid_type_rejected_witness:
  "file_type \<lparr>file_name = ''photo.png'', file_type = ''image/png'', file_size = 1024\<rparr> \<notin> set validTypes
   \<and> onDrop (Some \<lparr>user_id = ''u1''\<rparr>) upload_ok
         [\<lparr>file_name = ''photo.png'', file_type = ''image/png'', file_size = 1024\<rparr>] =
       [Toast ''Invalid file type'' ''Please upload a PDF or Word document'' Destructive]"
  using invalid_type_rejected [of "\<lparr>file_name = ''photo.png'', file_type = ''image/png'', file_size = 1024\<rparr>"
      "\<lparr>user_id = ''u1''\<rparr>" upload_ok "[]"]
  by (simp add: validTypes_def)

text \<open>
  C7. A dropped file of more than 5 MiB is rejected whatever its MIME type: the handler
  shows one notification, "File too large" for an allowed type and "Invalid file type"
  otherwise, and does nothing else.
\<close>

theorem too_large_rejected:
  assumes "5 * 1024 * 1024 < file_size f"
  shows "onDrop (Some u) uploadResume (f # fs) =
           [if file_type f \<in> set validTypes
            then Toast ''File too large'' ''Please upload a file smaller than 5MB'' Destructive
            else Toast ''Invalid file type'' ''Please upload a PDF or Word document'' Destructive]"
  using assms by (simp add: onDrop_def)

theorem too_large_rejected_witness:
  "5 * 1024 * 1024 <
     file_size \<lparr>file_name = ''cv.pdf'', file_type = ''application/pdf'', file_size = 6 * 1024 * 1024\<rparr>
   \<and> onDrop (Some \<lparr>user_id = ''u1''\<rparr>) upload_ok
         [\<lparr>file_name = ''cv.pdf'', file_type = ''application/pdf'', file_size = 6 * 1024 * 1024\<rparr>] =
       [Toast ''File too large'' ''Please upload a file smaller than 5MB'' Destructive]"
  using too_large_rejected [of
      "\<lparr>file_name = ''cv.pdf'', file_type = ''application/pdf'', file_size = 6 * 1024 * 1024\<rparr>"
      "\<lparr>user_id = ''u1''\<rparr>" upload_ok "[]"]
  by (simp add: validTypes_def)

text \<open>
  C8. For a file that fails validation, by its type or by its size, the handler never
  calls \<^verbatim>\<open>uploadResume\<close>, with or without a user and whatever the call would return.
\<close>

theorem invalid_upload_no_call:
  assumes "file_type f \<notin> set validTypes \<or> 5 * 1024 * 1024 < file_size f"
  shows "\<not> list_ex is_upload (onDrop usr uploadResume (f # fs))"
  using assms by (auto simp: onDrop_def split: option.splits)

theorem invalid_upload_no_call_witness:
  "5 * 1024 * 1024 <
     file_size \<lparr>file_name = ''cv.docx'', file_type = ''application/msword'', file_size = 5242881\<rparr>
   \<and> \<not> list_ex is_upload
         (onDrop (Some \<lparr>user_id = ''u1''\<rparr>) upload_fails
            [\<lparr>file_name = ''cv.docx'', file_type = ''application/msword'', file_size = 5242881\<rparr>])"
  using invalid_upload_no_call [of
      "\<lparr>file_name = ''cv.docx'', file_type = ''application/msword'', file_size = 5242881\<rparr>"
      "Some \<lparr>user_id = ''u1''\<rparr>" upload_fails "[]"]
  by simp

section \<open>The filter derivation: results\<close>

text \<open>
  C4. Filtering is idempotent: filtering a filtered catalog again, with the same filter
  sets and the same search string, changes nothing.
\<close>

theorem filter_catalog_idempotent:
  "filter_catalog fs search (filter_catalog fs search catalog) = filter_catalog fs search catalog"
  by (simp add: filter_catalog_def)

text \<open>
  C5, as stated: with the three filter sets empty the result is the full catalog. The
  search string still applies: searching \<open>graph\<close> in a catalog whose only entry is titled
  \<open>Arrays\<close> gives the empty list.
\<close>

theorem empty_filter_counterexample:
  "filter_catalog \<lparr>difficulty = [], category = [], companies = []\<rparr> ''graph''
     [\<lparr>entry_id = ''arrays'', title = ''Arrays'', entry_difficulty = ''Easy'',
       entry_category = ''inside''\<rparr>]
   \<noteq> [\<lparr>entry_id = ''arrays'', title = ''Arrays'', entry_difficulty = ''Easy'',
        entry_category = ''inside''\<rparr>]"
  by code_simp

text \<open>
  C5, amended: with the three filter sets empty and the search string empty, the result
  is the full catalog.
\<close>

theorem empty_filter_full_catalog:
  assumes "difficulty fs = []" and "category fs = []" and "companies fs = []"
  shows "filter_catalog fs [] catalog = catalog"
  using assms by (simp add: filter_catalog_def matches_def)

theorem empty_filter_full_catalog_witness:
  "difficulty \<lparr>difficulty = [], category = [], companies = []\<rparr> = []
   \<and> category \<lparr>difficulty = [], category = [], companies = []\<rparr> = []
   \<and> companies \<lparr>difficulty = [], category = [], companies = []\<rparr> = []
   \<and> filter_catalog \<lparr>difficulty = [], category = [], companies = []\<rparr> []
         [\<lparr>entry_id = ''arrays'', title = ''Arrays'', entry_difficulty = ''Easy'',
           entry_category = ''inside''\<rparr>] =
       [\<lparr>entry_id = ''arrays'', title = ''Arrays'', entry_difficulty = ''Easy'',
         entry_category = ''inside''\<rparr>]"
  using empty_filter_full_catalog [of "\<lparr>difficulty = [], category = [], companies = []\<rparr>"
      "[\<lparr>entry_id = ''arrays'', title = ''Arrays'', entry_difficulty = ''Easy'',
         entry_category = ''inside''\<rparr>]"]
  by simp

end
